theory Spec2Isabelle
  imports Main
begin

section \<open>JavaScript values\<close>

text \<open>
  The records handled by the scheduler are JSON documents.  A JSON value is \<open>json\<close>;
  a JavaScript value is \<open>json option\<close>, where \<open>None\<close> is \<open>undefined\<close>.  Numbers are
  the integers of magnitude below \<open>2^53\<close>: a JavaScript number holds each of them exactly
  and prints it in plain decimal.  An object whose keys are only
  ever read by property access is a function from keys to values: a key that is absent
  reads as \<open>undefined\<close>.  An object literal whose own keys matter (it is spread into
  another object) is a map from keys to values, so that a key bound to \<open>undefined\<close>
  differs from an absent key.
\<close>

datatype json =
    JNull
  | JBool bool
  | JNum int
  | JStr string
  | JArr "json list"
  | JObj "(string \<times> json) list"

type_synonym jsval = "json option"
type_synonym jsobj = "string \<Rightarrow> jsval"
type_synonym jsliteral = "string \<rightharpoonup> jsval"

datatype js_error = Error string | TypeError string | ReferenceError string

text \<open>\<open>error.message\<close>\<close>

fun message_of :: "js_error \<Rightarrow> string" where
  "message_of (Error m) = m"
| "message_of (TypeError m) = m"
| "message_of (ReferenceError m) = m"

text \<open>\<open>truthy v\<close> is the outcome of \<open>if (v)\<close>; \<open>!v\<close> is its negation.\<close>

fun truthy :: "jsval \<Rightarrow> bool" where
  "truthy None = False"
| "truthy (Some JNull) = False"
| "truthy (Some (JBool b)) = b"
| "truthy (Some (JNum n)) = (n \<noteq> 0)"
| "truthy (Some (JStr s)) = (s \<noteq> [])"
| "truthy (Some (JArr xs)) = True"
| "truthy (Some (JObj kvs)) = True"

text \<open>\<open>a || b\<close>\<close>

definition js_or :: "jsval \<Rightarrow> jsval \<Rightarrow> jsval" where
  "js_or a b = (if truthy a then a else b)"

text \<open>
  An object made by \<open>{}\<close> inherits the members of \<open>Object.prototype\<close>.  Reading one of
  these keys from an object that has no value of its own there gives the inherited member,
  a function (for \<open>__proto__\<close> the prototype object), which is truthy and is not the empty
  string.
\<close>

definition object_prototype_keys :: "string list" where
  "object_prototype_keys =
     [''constructor'', ''__defineGetter__'', ''__defineSetter__'', ''hasOwnProperty'',
      ''__lookupGetter__'', ''__lookupSetter__'', ''isPrototypeOf'', ''propertyIsEnumerable'',
      ''toString'', ''valueOf'', ''__proto__'', ''toLocaleString'']"

definition inherited :: "jsobj \<Rightarrow> string \<Rightarrow> bool" where
  "inherited obj k = (obj k = None \<and> k \<in> set object_prototype_keys)"

text \<open>Property access on an object literal, and the spread \<open>{...r, ...u}\<close>.\<close>

definition lit_prop :: "jsliteral \<Rightarrow> string \<Rightarrow> jsval" where
  "lit_prop u k = (case u k of None \<Rightarrow> None | Some v \<Rightarrow> v)"

definition spread :: "jsobj \<Rightarrow> jsliteral \<Rightarrow> jsobj" where
  "spread r u = (\<lambda>k. case u k of None \<Rightarrow> r k | Some v \<Rightarrow> v)"

text \<open>\<open>Array.prototype.findIndex\<close>, with \<open>None\<close> for \<open>-1\<close>.\<close>

fun findIndex :: "('a \<Rightarrow> bool) \<Rightarrow> 'a list \<Rightarrow> nat option" where
  "findIndex P [] = None"
| "findIndex P (x # xs) = (if P x then Some 0 else map_option Suc (findIndex P xs))"

section \<open>Checkpoint store (utils/syncTracker.js)\<close>

text \<open>
  Source: the module \<open>syncTracker.js\<close>, kept in \<open>src/utils/portalAuth.js\<close> from line 97,
  and \<open>src/utils/manageSync.js\<close>.
  The store is the list \<open>sync_records\<close> of the document \<open>integration_last_sync.json\<close>.
  Every operation loads the document, works on the list and saves it; an operation that
  throws before saving leaves the document as it was.  Each operation returns its
  outcome together with the store after the call.  The clock reading
  \<open>new Date().toISOString()\<close> is the argument \<open>now\<close>.
\<close>

type_synonym sync_store = "jsobj list"

definition resolves :: "string \<Rightarrow> jsobj \<Rightarrow> bool" where
  "resolves identifier record =
     (record ''module_name'' = Some (JStr identifier) \<or>
      record ''integration_name'' = Some (JStr identifier))"

definition getSyncRecord :: "string \<Rightarrow> sync_store \<Rightarrow> jsobj option" where
  "getSyncRecord identifier recs = find (resolves identifier) recs"

definition updateSyncRecord ::
  "string \<Rightarrow> string \<Rightarrow> jsliteral \<Rightarrow> sync_store \<Rightarrow> (js_error + jsobj) \<times> sync_store" where
  "updateSyncRecord now identifier updateData recs =
     (case findIndex (resolves identifier) recs of
        None \<Rightarrow> (Inl (Error (''Sync record not found for identifier: '' @ identifier)), recs)
      | Some recordIndex \<Rightarrow>
          (let record = recs ! recordIndex;
               new = (spread record updateData)
                       (''updated_at'' := Some (JStr now),
                        ''last_sync_at'' :=
                           js_or (lit_prop updateData ''last_sync_at'') (record ''last_sync_at''))
           in (Inr new, recs[recordIndex := new])))"

definition resetAllSyncRecords :: "string \<Rightarrow> sync_store \<Rightarrow> sync_store" where
  "resetAllSyncRecords now recs =
     map (\<lambda>record. record(''status'' := Some (JStr ''pending''),
                          ''last_sync_at'' := Some JNull,
                          ''updated_at'' := Some (JStr now))) recs"

text \<open>\<open>handleResetCommand\<close> of utils/manageSync.js; \<open>identifier\<close> is \<open>args[1]\<close>.\<close>

definition handleResetCommand ::
  "string \<Rightarrow> string option \<Rightarrow> sync_store \<Rightarrow> (js_error + unit) \<times> sync_store" where
  "handleResetCommand now identifier recs =
     (case identifier of
        Some ident \<Rightarrow>
          (if ident \<noteq> [] then
             (case updateSyncRecord now ident
                     [''status'' \<mapsto> Some (JStr ''pending''), ''last_sync_at'' \<mapsto> Some JNull] recs of
                (Inl e, recs') \<Rightarrow> (Inl e, recs')
              | (Inr r, recs') \<Rightarrow> (Inr (), recs'))
           else (Inr (), resetAllSyncRecords now recs))
      | None \<Rightarrow> (Inr (), resetAllSyncRecords now recs))"

section \<open>Strings\<close>

text \<open>
  Strings are sequences of characters below code 256 (Latin-1).  Case conversion maps the
  letters of that range as JavaScript does, the sharp s to \<open>SS\<close>; the upper case of the
  micro sign (181) and of y with diaeresis (255) lies above code 255, and strings with these
  two characters are outside the model.  White space is the white space and line
  terminators of JavaScript below code 256.
\<close>

definition digit_char :: "nat \<Rightarrow> char" where
  "digit_char d = char_of (48 + d)"

function show_nat :: "nat \<Rightarrow> string" where
  "show_nat n = (if n < 10 then [digit_char n] else show_nat (n div 10) @ [digit_char (n mod 10)])"
  by pat_completeness auto
termination
  by (relation "measure id") auto

definition show_int :: "int \<Rightarrow> string" where
  "show_int i = (if i < 0 then CHR ''-'' # show_nat (nat (- i)) else show_nat (nat i))"

fun join :: "string \<Rightarrow> string list \<Rightarrow> string" where
  "join sep [] = []"
| "join sep [x] = x"
| "join sep (x # y # ys) = x @ sep @ join sep (y # ys)"

definition js_whitespace :: "char \<Rightarrow> bool" where
  "js_whitespace c = ((of_char c :: nat) \<in> {9, 10, 11, 12, 13, 32, 160})"

definition is_digit :: "char \<Rightarrow> bool" where
  "is_digit c = (48 \<le> (of_char c :: nat) \<and> (of_char c :: nat) \<le> 57)"


definition upper_char :: "char \<Rightarrow> string" where
  "upper_char c =
     (let n = (of_char c :: nat) in
      if (97 \<le> n \<and> n \<le> 122) \<or> (224 \<le> n \<and> n \<le> 254 \<and> n \<noteq> 247) then [char_of (n - 32)]
      else if n = 223 then ''SS''
      else [c])"

definition lower_char :: "char \<Rightarrow> char" where
  "lower_char c =
     (let n = (of_char c :: nat) in
      if (65 \<le> n \<and> n \<le> 90) \<or> (192 \<le> n \<and> n \<le> 222 \<and> n \<noteq> 215) then char_of (n + 32)
      else c)"

definition toUpperCase :: "string \<Rightarrow> string" where
  "toUpperCase s = concat (map upper_char s)"

definition toLowerCase :: "string \<Rightarrow> string" where
  "toLowerCase s = map lower_char s"

definition trim :: "string \<Rightarrow> string" where
  "trim s = rev (dropWhile js_whitespace (rev (dropWhile js_whitespace s)))"

text \<open>\<open>String(v)\<close>, which is also \<open>v.toString()\<close> and the text of \<open>v\<close> in a template literal.\<close>

fun js_String :: "json \<Rightarrow> string" where
  "js_String JNull = ''null''"
| "js_String (JBool b) = (if b then ''true'' else ''false'')"
| "js_String (JNum n) = show_int n"
| "js_String (JStr s) = s"
| "js_String (JArr xs) = join '','' (map (\<lambda>x. if x = JNull then [] else js_String x) xs)"
| "js_String (JObj kvs) = ''[object Object]''"

definition js_template :: "jsval \<Rightarrow> string" where
  "js_template v = (case v of None \<Rightarrow> ''undefined'' | Some x \<Rightarrow> js_String x)"

text \<open>\<open>JSON.stringify\<close> without indentation.\<close>

definition hex_char :: "nat \<Rightarrow> char" where
  "hex_char d = (if d < 10 then char_of (48 + d) else char_of (87 + d))"

definition json_escape :: "char \<Rightarrow> string" where
  "json_escape c =
     (let n = (of_char c :: nat) in
      if n = 34 then [CHR 0x5C, CHR 0x22]
      else if n = 92 then [CHR 0x5C, CHR 0x5C]
      else if n = 8 then [CHR 0x5C, CHR ''b'']
      else if n = 12 then [CHR 0x5C, CHR ''f'']
      else if n = 10 then [CHR 0x5C, CHR ''n'']
      else if n = 13 then [CHR 0x5C, CHR ''r'']
      else if n = 9 then [CHR 0x5C, CHR ''t'']
      else if n < 32 then
        [CHR 0x5C, CHR ''u'', CHR ''0'', CHR ''0'', hex_char (n div 16), hex_char (n mod 16)]
      else [c])"

definition json_quote :: "string \<Rightarrow> string" where
  "json_quote s = [CHR 0x22] @ concat (map json_escape s) @ [CHR 0x22]"

fun JSON_stringify :: "json \<Rightarrow> string" where
  "JSON_stringify JNull = ''null''"
| "JSON_stringify (JBool b) = (if b then ''true'' else ''false'')"
| "JSON_stringify (JNum n) = show_int n"
| "JSON_stringify (JStr s) = json_quote s"
| "JSON_stringify (JArr xs) = ''['' @ join '','' (map JSON_stringify xs) @ '']''"
| "JSON_stringify (JObj kvs) =
     ''{'' @ join '','' (map (\<lambda>kv. json_quote (fst kv) @ '':'' @ JSON_stringify (snd kv)) kvs) @ ''}''"

section \<open>Field transformer (utils/fieldTransformer.js)\<close>

text \<open>
  Source: \<open>src/unnamed/part_001\<close>.
  The mapping document \<open>config/fieldMappings.json\<close> is read by \<open>loadFieldMappings\<close>;
  what it returns (or the error it throws) is the argument \<open>loaded\<close> of the transformer.
  The lists are the entries of the JSON objects, in the order of \<open>Object.entries\<close>.
  The source fields and destination fields of \<open>field_mappings\<close> and the destination fields
  of \<open>computed_fields\<close> are taken not to be names of members of \<open>Object.prototype\<close>.
\<close>

record mapping_config =
  portal_field :: string
  required :: bool
  transform :: string

record computed_config =
  computed_transform :: string
  computed_portal_field :: string

record validation_config =
  required_fields :: "string list option"
  email_validation :: bool
  phone_validation :: bool

record field_mapping =
  field_mappings :: "(string \<times> mapping_config) list"
  default_values :: "(string \<times> json) list option"
  computed_fields :: "(string \<times> computed_config) list option"
  validation_rules :: "validation_config option"

record transformation =
  data :: jsobj
  isValid :: bool
  validationErrors :: "string list"
  mapping :: field_mapping

text \<open>The \<open>switch (mappingConfig.transform)\<close> of step 1.\<close>

definition apply_transform :: "string \<Rightarrow> jsval \<Rightarrow> jsval" where
  "apply_transform kind v =
     (if kind = ''direct'' then v
      else if kind = ''uppercase'' then
        (if truthy v then Some (JStr (toUpperCase (js_template v))) else v)
      else if kind = ''lowercase'' then
        (if truthy v then Some (JStr (toLowerCase (js_template v))) else v)
      else if kind = ''trim'' then
        (if truthy v then Some (JStr (trim (js_template v))) else v)
      else v)"

text \<open>Step 1: the loop over \<open>Object.entries(mapping.field_mappings)\<close>.\<close>

fun apply_field_mappings ::
  "jsobj \<Rightarrow> (string \<times> mapping_config) list \<Rightarrow> jsobj \<Rightarrow> string list \<Rightarrow> jsobj \<times> string list" where
  "apply_field_mappings sugarcrmRecord [] transformedRecord errors =
     (transformedRecord, errors)"
| "apply_field_mappings sugarcrmRecord ((sugarcrmField, mappingConfig) # rest)
       transformedRecord errors =
     (let v = sugarcrmRecord sugarcrmField in
      if required mappingConfig \<and> (\<not> truthy v \<or> v = Some (JStr [])) then
        apply_field_mappings sugarcrmRecord rest transformedRecord
          (errors @ [''Missing required field: '' @ sugarcrmField])
      else
        (let transformedValue = apply_transform (transform mappingConfig) v in
         if transformedValue \<noteq> Some JNull \<and> transformedValue \<noteq> None
            \<and> transformedValue \<noteq> Some (JStr []) then
           apply_field_mappings sugarcrmRecord rest
             (transformedRecord(portal_field mappingConfig := transformedValue)) errors
         else apply_field_mappings sugarcrmRecord rest transformedRecord errors))"

text \<open>Step 2: the loop over \<open>Object.entries(mapping.default_values)\<close>.  The test
  \<open>!transformedRecord[field]\<close> reads the record, made by \<open>{}\<close>, at a key of the mapping.\<close>

fun apply_default_values :: "(string \<times> json) list \<Rightarrow> jsobj \<Rightarrow> jsobj" where
  "apply_default_values [] transformedRecord = transformedRecord"
| "apply_default_values ((field, v) # rest) transformedRecord =
     (if \<not> truthy (transformedRecord field) \<and> \<not> inherited transformedRecord field then
        apply_default_values rest (transformedRecord(field := Some v))
      else apply_default_values rest transformedRecord)"

text \<open>Step 3: the loop over \<open>Object.entries(mapping.computed_fields)\<close>; \<open>now\<close> is
  \<open>new Date().toISOString()\<close>.\<close>

fun apply_computed_fields :: "string \<Rightarrow> (string \<times> computed_config) list \<Rightarrow> jsobj \<Rightarrow> jsobj" where
  "apply_computed_fields now [] transformedRecord = transformedRecord"
| "apply_computed_fields now ((field, config) # rest) transformedRecord =
     (let computedValue =
        (if computed_transform config = ''timestamp'' then Some (JStr now)
         else if computed_transform config = ''copy_from_name'' then transformedRecord ''name''
         else if computed_transform config = ''current_date'' then
           Some (JStr (takeWhile (\<lambda>c. c \<noteq> CHR ''T'') now))
         else Some JNull)
      in if computedValue \<noteq> Some JNull then
           apply_computed_fields now rest
             (transformedRecord(computed_portal_field config := computedValue))
         else apply_computed_fields now rest transformedRecord)"

text \<open>The regular expression \<open>/^[^\s@]+@[^\s@]+\.[^\s@]+$/\<close>: no white space, exactly one
  \<open>@\<close> with a non-empty part before it, and after it a dot that is neither first nor last.\<close>

definition emailRegex_test :: "string \<Rightarrow> bool" where
  "emailRegex_test s =
     (let local = takeWhile (\<lambda>c. c \<noteq> CHR ''@'') s;
          rest = dropWhile (\<lambda>c. c \<noteq> CHR ''@'') s
      in (\<forall>c \<in> set s. \<not> js_whitespace c) \<and> local \<noteq> [] \<and> rest \<noteq> []
         \<and> CHR ''@'' \<notin> set (tl rest)
         \<and> (\<exists>i \<in> set [1 ..< length (tl rest) - 1]. tl rest ! i = CHR ''.''))"

text \<open>The regular expression \<open>/^[\+]?[1-9][\d]{0,15}$/\<close>, applied after the characters of
  \<open>/[\s\-\(\)]/g\<close> have been removed.\<close>

definition phoneRegex_test :: "string \<Rightarrow> bool" where
  "phoneRegex_test s =
     (let t = (case s of c # r \<Rightarrow> (if c = CHR ''+'' then r else s) | [] \<Rightarrow> s)
      in case t of
           [] \<Rightarrow> False
         | d # ds \<Rightarrow> is_digit d \<and> d \<noteq> CHR ''0'' \<and> (\<forall>c \<in> set ds. is_digit c) \<and> length ds \<le> 15)"

definition strip_phone :: "string \<Rightarrow> string" where
  "strip_phone s =
     filter (\<lambda>c. \<not> (js_whitespace c \<or> c = CHR ''-'' \<or> c = CHR ''('' \<or> c = CHR '')'')) s"

fun check_required_fields :: "jsobj \<Rightarrow> string list \<Rightarrow> bool \<times> string list \<Rightarrow> bool \<times> string list" where
  "check_required_fields record [] (valid, existingErrors) = (valid, existingErrors)"
| "check_required_fields record (field # rest) (valid, existingErrors) =
     (if (\<not> truthy (record field) \<or> record field = Some (JStr []))
         \<and> \<not> inherited record field then
        check_required_fields record rest
          (False, existingErrors @ [''Missing required field: '' @ field])
      else check_required_fields record rest (valid, existingErrors))"

definition email_text :: "json \<Rightarrow> string" where
  "email_text v = (case v of JArr xs \<Rightarrow> JSON_stringify v | JObj kvs \<Rightarrow> JSON_stringify v
                   | _ \<Rightarrow> js_String v)"

definition check_email :: "jsobj \<Rightarrow> validation_config \<Rightarrow> bool \<times> string list \<Rightarrow> bool \<times> string list" where
  "check_email record validationRules st =
     (case record ''email'' of
        None \<Rightarrow> st
      | Some email \<Rightarrow>
          (if email_validation validationRules \<and> truthy (Some email) then
             (let emailString = email_text email in
              if \<not> emailRegex_test emailString then
                (False, snd st @ [''Invalid email format: '' @ emailString])
              else st)
           else st))"

definition check_phone ::
  "jsobj \<Rightarrow> validation_config \<Rightarrow> bool \<times> string list \<Rightarrow> js_error + bool \<times> string list" where
  "check_phone record validationRules st =
     (if phone_validation validationRules \<and> truthy (record ''phone'') then
        (case record ''phone'' of
           Some (JStr phone) \<Rightarrow>
             (if \<not> phoneRegex_test (strip_phone phone) then
                Inr (False, snd st @ [''Invalid phone format: '' @ phone])
              else Inr st)
         | _ \<Rightarrow> Inl (TypeError ''record.phone.replace is not a function''))
      else Inr st)"

definition validateTransformedRecord ::
  "jsobj \<Rightarrow> validation_config \<Rightarrow> string list \<Rightarrow> js_error + bool \<times> string list" where
  "validateTransformedRecord record validationRules existingErrors =
     (let st1 = (case required_fields validationRules of
                   Some names \<Rightarrow> check_required_fields record names (True, existingErrors)
                 | None \<Rightarrow> (True, existingErrors));
          st2 = check_email record validationRules st1
      in check_phone record validationRules st2)"

definition transformSugarcrmToPortal ::
  "js_error + field_mapping \<Rightarrow> string \<Rightarrow> jsobj \<Rightarrow> js_error + transformation" where
  "transformSugarcrmToPortal loaded now sugarcrmRecord =
     (case loaded of
        Inl e \<Rightarrow> Inl e
      | Inr m \<Rightarrow>
          (let (r1, errs1) = apply_field_mappings sugarcrmRecord (field_mappings m) (\<lambda>k. None) [];
               r2 = (case default_values m of Some dv \<Rightarrow> apply_default_values dv r1 | None \<Rightarrow> r1);
               r3 = (case computed_fields m of
                       Some cf \<Rightarrow> apply_computed_fields now cf r2 | None \<Rightarrow> r2)
           in case validation_rules m of
                None \<Rightarrow>
                  Inr \<lparr>data = r3, isValid = True, validationErrors = errs1, mapping = m\<rparr>
              | Some rules \<Rightarrow>
                  (case validateTransformedRecord r3 rules errs1 of
                     Inl e \<Rightarrow> Inl e
                   | Inr (valid, errs) \<Rightarrow>
                       Inr \<lparr>data = r3, isValid = valid, validationErrors = errs, mapping = m\<rparr>)))"

definition getSugarcrmFields :: "js_error + field_mapping \<Rightarrow> js_error + string list" where
  "getSugarcrmFields loaded =
     (case loaded of Inl e \<Rightarrow> Inl e | Inr m \<Rightarrow> Inr (map fst (field_mappings m)))"

section \<open>Paginated fetch (utils/sugarCRM.js)\<close>

text \<open>
  Source: \<open>fetchAllRecords\<close> in \<open>src/utils/sugarCRM.js\<close>, lines 184 to 227.
  \<open>post n offset\<close> is the outcome of the call \<open>sugarCRMPost(pageConfig)\<close> that is the
  \<open>n\<close>-th request of the fetch (counting from 0) and carries \<open>pageConfig.offset = offset\<close>:
  the error it throws, or \<open>response.data\<close> with the truthiness of \<open>has_more\<close>.  The
  callback \<open>onPage\<close>, when given, returns the error it throws, if any.  Besides the
  variables of the loop the state records what the loop did: the offsets it requested, the
  pages it handed to the callback, and whether it printed the warning.  The loop may run
  forever; then the result is \<open>None\<close>.
\<close>

record response =
  page_records :: "jsobj list"
  has_more :: bool
  next_offset :: jsval

record fetch_state =
  allRecords :: "jsobj list"
  offset :: jsval
  totalFetched :: nat
  requested :: "jsval list"
  callbacks :: "jsobj list list"
  warned :: bool

type_synonym page_source = "nat \<Rightarrow> jsval \<Rightarrow> js_error + response"
type_synonym page_callback = "jsobj list \<Rightarrow> response \<Rightarrow> js_error option"

partial_function (option) fetch_pages ::
  "page_source \<Rightarrow> page_callback option \<Rightarrow> fetch_state \<Rightarrow> (js_error + fetch_state) option" where
  "fetch_pages post onPage st =
     (case post (length (requested st)) (offset st) of
        Inl e \<Rightarrow> Some (Inl e)
      | Inr resp \<Rightarrow>
          (let st1 = st\<lparr>allRecords := allRecords st @ page_records resp,
                        totalFetched := totalFetched st + length (page_records resp),
                        offset := next_offset resp,
                        requested := requested st @ [offset st]\<rparr>
           in case (case onPage of None \<Rightarrow> None | Some cb \<Rightarrow> cb (page_records resp) resp) of
                Some e \<Rightarrow> Some (Inl e)
              | None \<Rightarrow>
                  (let st2 = (case onPage of
                                None \<Rightarrow> st1
                              | Some cb \<Rightarrow> st1\<lparr>callbacks := callbacks st1 @ [page_records resp]\<rparr>)
                   in if totalFetched st2 > 10000 then Some (Inr (st2\<lparr>warned := True\<rparr>))
                      else if has_more resp then fetch_pages post onPage st2
                      else Some (Inr st2))))"

declare fetch_pages.simps [code]

definition fetchAllRecords ::
  "page_source \<Rightarrow> page_callback option \<Rightarrow> (js_error + fetch_state) option" where
  "fetchAllRecords post onPage =
     fetch_pages post onPage
       \<lparr>allRecords = [], offset = Some (JNum 0), totalFetched = 0, requested = [],
        callbacks = [], warned = False\<rparr>"

text \<open>The state of the loop after \<open>k\<close> pages with the responses \<open>r 0\<close>, \<open>r 1\<close>, ...\<close>

definition state_after :: "page_callback option \<Rightarrow> (nat \<Rightarrow> response) \<Rightarrow> nat \<Rightarrow> fetch_state" where
  "state_after onPage r k =
     \<lparr>allRecords = concat (map (\<lambda>j. page_records (r j)) [0..<k]),
      offset = (case k of 0 \<Rightarrow> Some (JNum 0) | Suc j \<Rightarrow> next_offset (r j)),
      totalFetched = sum_list (map (\<lambda>j. length (page_records (r j))) [0..<k]),
      requested = map (\<lambda>j. case j of 0 \<Rightarrow> Some (JNum 0) | Suc i \<Rightarrow> next_offset (r i)) [0..<k],
      callbacks = (case onPage of
                     None \<Rightarrow> []
                   | Some cb \<Rightarrow> map (\<lambda>j. page_records (r j)) [0..<k]),
      warned = False\<rparr>"

section \<open>Per-record processing (tasks)\<close>

text \<open>
  Source: \<open>processRecordsForPortalCases\<close> and \<open>processRecordsForPortalMembers\<close> in
  \<open>src/scripts/encrypt-env.js\<close> (lines 257 and 584), \<open>processRecordsForPortalAuditors\<close> in
  \<open>src/tasks/SugarAuditorToPortalAuditor.js\<close> (line 128).
  Each task transforms the fetched records one by one inside \<open>try\<close>/\<open>catch\<close>.  The clock
  is read once per transformation; \<open>clock i\<close> is the reading for the record at position
  \<open>i\<close>.  The object literals of the source are written as functions from keys to values.
\<close>

definition members_processed :: "jsobj \<Rightarrow> jsobj" where
  "members_processed d =
     (\<lambda>k. None)(''tm_id_c'' := js_or (d ''tm_id_c'') (Some JNull),
                 ''member_name'' := js_or (d ''member_name'') (Some JNull),
                 ''status_c'' := js_or (d ''status_c'') (Some JNull),
                 ''membership_category_c'' := js_or (d ''membership_category_c'') (Some JNull),
                 ''sugarcrm_id'' := js_or (d ''sugarcrm_id'') (Some JNull))"

definition members_fallback :: "jsobj \<Rightarrow> jsobj" where
  "members_fallback record =
     (\<lambda>k. None)(''tm_id_c'' := Some JNull,
                 ''member_name'' := js_or (record ''name'') (Some JNull),
                 ''status_c'' := Some JNull,
                 ''membership_category_c'' := Some JNull,
                 ''sugarcrm_id'' := js_or (record ''id'') (Some JNull))"

fun processRecordsForPortalMembers ::
  "js_error + field_mapping \<Rightarrow> (nat \<Rightarrow> string) \<Rightarrow> nat \<Rightarrow> jsobj list \<Rightarrow> jsobj list" where
  "processRecordsForPortalMembers loaded clock i [] = []"
| "processRecordsForPortalMembers loaded clock i (record # rest) =
     (case transformSugarcrmToPortal loaded (clock i) record of
        Inr transformation \<Rightarrow> members_processed (data transformation)
      | Inl e \<Rightarrow> members_fallback record)
     # processRecordsForPortalMembers loaded clock (Suc i) rest"

definition cases_keys :: "string list" where
  "cases_keys =
     [''case_id'', ''name'', ''case_number'', ''member_id'', ''type'', ''sub_type'',
      ''audit_details'', ''audit_due_date'', ''from_period'', ''to_period'', ''audit_user_id'',
      ''margin'', ''stage'', ''comment'', ''rejection_type'']"

definition cases_processed :: "jsobj \<Rightarrow> jsobj" where
  "cases_processed d = (\<lambda>k. if k \<in> set cases_keys then js_or (d k) (Some JNull) else None)"

definition cases_fallback :: "jsobj \<Rightarrow> jsobj" where
  "cases_fallback record =
     (\<lambda>k. if k = ''case_id'' then js_or (record ''id'') (Some JNull)
          else if k = ''name'' then js_or (record ''name'') (Some JNull)
          else if k \<in> set cases_keys then Some JNull
          else None)"

fun processRecordsForPortalCases ::
  "js_error + field_mapping \<Rightarrow> (nat \<Rightarrow> string) \<Rightarrow> nat \<Rightarrow> jsobj list \<Rightarrow> jsobj list" where
  "processRecordsForPortalCases loaded clock i [] = []"
| "processRecordsForPortalCases loaded clock i (record # rest) =
     (case transformSugarcrmToPortal loaded (clock i) record of
        Inr transformation \<Rightarrow> cases_processed (data transformation)
      | Inl e \<Rightarrow> cases_fallback record)
     # processRecordsForPortalCases loaded clock (Suc i) rest"

definition auditors_processed :: "jsobj \<Rightarrow> jsobj" where
  "auditors_processed d =
     (\<lambda>k. None)(''sugarcrm_id'' := d ''sugarcrm_id'',
                 ''name'' := d ''name'',
                 ''auditor_user_id_c'' := d ''auditor_user_id_c'',
                 ''email_id_c'' := d ''email_id_c'',
                 ''registration_no_c'' := d ''registration_no_c'')"

definition auditors_fallback :: "jsobj \<Rightarrow> jsobj" where
  "auditors_fallback record =
     (\<lambda>k. None)(''sugarcrm_id'' := record ''id'',
                 ''name'' := js_or (record ''name'') (Some (JStr ''Unknown'')),
                 ''auditor_user_id_c'' := js_or (record ''auditor_user_id_c'') (Some JNull),
                 ''email_id_c'' := js_or (record ''email_id_c'') (Some JNull),
                 ''registration_no_c'' := js_or (record ''registration_no_c'') (Some JNull))"

fun processRecordsForPortalAuditors ::
  "js_error + field_mapping \<Rightarrow> (nat \<Rightarrow> string) \<Rightarrow> nat \<Rightarrow> jsobj list \<Rightarrow> jsobj list" where
  "processRecordsForPortalAuditors loaded clock i [] = []"
| "processRecordsForPortalAuditors loaded clock i (record # rest) =
     (case transformSugarcrmToPortal loaded (clock i) record of
        Inr transformed \<Rightarrow> auditors_processed (data transformed)
      | Inl e \<Rightarrow> auditors_fallback record)
     # processRecordsForPortalAuditors loaded clock (Suc i) rest"

section \<open>Sync tasks\<close>

text \<open>
  Source: the Cases task and the Members task in \<open>src/scripts/encrypt-env.js\<close> (from lines
  61 and 369), the Auditors task in \<open>src/tasks/SugarAuditorToPortalAuditor.js\<close>, and
  \<open>callPortalAPI\<close> in \<open>src/utils/secrets.js\<close> (from line 59).
  A run of a task works in an environment: what \<open>loadFieldMappings\<close> gives for the task's
  mapping type, the page source of the Source system for the filters of the request, the
  outcome of \<open>callPortalAPIWithEnv\<close> for a batch (the error message of
  \<open>{success: false, error}\<close>, or the array of result objects of \<open>{success: true, data}\<close>,
  typed as the Destination interface states it), and the readings of the clock: per
  transformed record, at the start of the task, where the task builds its timestamp, and
  inside \<open>updateSyncRecord\<close>.  A run that returns gives the error it throws, if any, the
  checkpoint store it leaves, the number of records the fetch returned (when it did), and
  the batches it sent to the Destination.  The calls of the file logger are left out.
\<close>

record run_env =
  env_loaded :: "js_error + field_mapping"
  env_post :: "json list \<Rightarrow> page_source"
  env_portal :: "jsobj list \<Rightarrow> string + jsobj list"
  env_clock :: "nat \<Rightarrow> string"
  env_start :: string
  env_stamp :: string
  env_now :: string

record run_result =
  thrown :: "js_error option"
  store_after :: sync_store
  fetched :: "nat option"
  pushed :: "jsobj list list"

text \<open>An object literal as JSON: a key bound to \<open>undefined\<close> is not written.\<close>

definition json_object :: "(string \<times> jsval) list \<Rightarrow> json" where
  "json_object kvs = JObj (List.map_filter (\<lambda>kv. map_option (Pair (fst kv)) (snd kv)) kvs)"

definition date_filter :: "jsval \<Rightarrow> json" where
  "date_filter lastSyncDate =
     json_object [(''date_modified'', Some (json_object [(''$gte'', lastSyncDate)]))]"

subsection \<open>SugarImportCasesToPortalCases\<close>

text \<open>The \<open>catch\<close> block: the failure update, then \<open>throw error\<close>.  An error of the
  update itself leaves the block instead.\<close>

definition cases_catch ::
  "run_env \<Rightarrow> sync_store \<Rightarrow> js_error \<Rightarrow> nat option \<Rightarrow> jsobj list list \<Rightarrow> run_result" where
  "cases_catch env recs error n batches =
     (case updateSyncRecord (env_now env) ''Cases''
             [''status'' \<mapsto> Some (JStr ''failed''),
              ''last_sync_at'' \<mapsto> Some (JStr (env_stamp env)),
              ''metadata'' \<mapsto> Some (json_object
                 [(''error_message'', Some (JStr (message_of error))),
                  (''failed_at'', Some (JStr (env_stamp env))),
                  (''sugarcrm_module'', Some (JStr ''Cases''))])] recs of
        (Inl e, recs') \<Rightarrow>
          \<lparr>thrown = Some e, store_after = recs', fetched = n, pushed = batches\<rparr>
      | (Inr r, recs') \<Rightarrow>
          \<lparr>thrown = Some error, store_after = recs', fetched = n, pushed = batches\<rparr>)"

text \<open>The end of the \<open>try\<close> block: the success update.\<close>

definition cases_commit ::
  "run_env \<Rightarrow> sync_store \<Rightarrow> nat \<Rightarrow> jsval \<Rightarrow> jsobj list list \<Rightarrow> run_result" where
  "cases_commit env recs total_fetched lastSyncDate batches =
     (case updateSyncRecord (env_now env) ''Cases''
             [''status'' \<mapsto> Some (JStr ''success''),
              ''last_sync_at'' \<mapsto> Some (JStr (env_stamp env)),
              ''metadata'' \<mapsto> Some (json_object
                 [(''records_fetched'', Some (JNum (int total_fetched))),
                  (''sugarcrm_module'', Some (JStr ''Cases'')),
                  (''sync_duration'', Some (JStr (env_stamp env))),
                  (''last_sync_date_used'', lastSyncDate)])] recs of
        (Inl e, recs') \<Rightarrow> cases_catch env recs' e (Some total_fetched) batches
      | (Inr r, recs') \<Rightarrow>
          \<lparr>thrown = None, store_after = recs', fetched = Some total_fetched, pushed = batches\<rparr>)"

definition SugarImportCasesToPortalCases :: "run_env \<Rightarrow> sync_store \<Rightarrow> run_result option" where
  "SugarImportCasesToPortalCases env recs =
     (let lastSyncDate = (case getSyncRecord ''Cases'' recs of
                            None \<Rightarrow> None
                          | Some syncRecord \<Rightarrow> syncRecord ''last_sync_at'');
          filters = (if truthy lastSyncDate then [date_filter lastSyncDate] else [])
      in case getSugarcrmFields (env_loaded env) of
           Inl e \<Rightarrow> Some (cases_catch env recs e None [])
         | Inr fieldNames \<Rightarrow>
             (case fetchAllRecords (env_post env filters) (Some (\<lambda>page resp. None)) of
                None \<Rightarrow> None
              | Some (Inl e) \<Rightarrow> Some (cases_catch env recs e None [])
              | Some (Inr fetchResult) \<Rightarrow>
                  (if length (allRecords fetchResult) = 0 then
                     Some (cases_commit env recs (totalFetched fetchResult) lastSyncDate [])
                   else
                     (let processedRecords =
                            processRecordsForPortalCases (env_loaded env) (env_clock env) 0
                              (allRecords fetchResult)
                      in case env_portal env processedRecords of
                           Inl err \<Rightarrow>
                             Some (cases_catch env recs
                                     (Error (''Portal API call failed: '' @ err))
                                     (Some (totalFetched fetchResult)) [processedRecords])
                         | Inr portalResponse \<Rightarrow>
                             Some (cases_commit env recs (totalFetched fetchResult)
                                     lastSyncDate [processedRecords])))))"

subsection \<open>SugarCRMAccountToPortalMember\<close>

text \<open>The \<open>catch\<close> block: the failure update inside its own \<open>try\<close>, then \<open>throw error\<close>.\<close>

definition members_catch ::
  "run_env \<Rightarrow> sync_store \<Rightarrow> js_error \<Rightarrow> nat option \<Rightarrow> jsobj list list \<Rightarrow> run_result" where
  "members_catch env recs error n batches =
     (case updateSyncRecord (env_now env) ''Members''
             [''status'' \<mapsto> Some (JStr ''failed''),
              ''metadata'' \<mapsto> Some (json_object
                 [(''error_message'', Some (JStr (message_of error))),
                  (''failed_at'', Some (JStr (env_stamp env))),
                  (''sugarcrm_module'', Some (JStr ''Accounts''))])] recs of
        (outcome, recs') \<Rightarrow>
          \<lparr>thrown = Some error, store_after = recs', fetched = n, pushed = batches\<rparr>)"

definition members_commit ::
  "run_env \<Rightarrow> sync_store \<Rightarrow> nat \<Rightarrow> jsval \<Rightarrow> jsobj list list \<Rightarrow> run_result" where
  "members_commit env recs total_fetched lastSyncDate batches =
     (case updateSyncRecord (env_now env) ''Members''
             [''status'' \<mapsto> Some (JStr ''success''),
              ''last_sync_at'' \<mapsto> Some (JStr (env_start env)),
              ''metadata'' \<mapsto> Some (json_object
                 [(''records_fetched'', Some (JNum (int total_fetched))),
                  (''sugarcrm_module'', Some (JStr ''Accounts'')),
                  (''sync_duration'', Some (JStr (env_start env))),
                  (''last_sync_date_used'', lastSyncDate)])] recs of
        (Inl e, recs') \<Rightarrow> members_catch env recs' e (Some total_fetched) batches
      | (Inr r, recs') \<Rightarrow>
          \<lparr>thrown = None, store_after = recs', fetched = Some total_fetched, pushed = batches\<rparr>)"

text \<open>
  With records to process, the task evaluates the object literal
  \<open>{totalRecords: ..., accountsWithOfficers, totalComplianceOfficers}\<close> for the file logger
  before it calls the Destination.  Neither identifier is declared in the module, so the
  evaluation throws a \<open>ReferenceError\<close> and control passes to the \<open>catch\<close> block.
\<close>

definition SugarCRMAccountToPortalMember :: "run_env \<Rightarrow> sync_store \<Rightarrow> run_result option" where
  "SugarCRMAccountToPortalMember env recs =
     (let lastSyncDate = (case getSyncRecord ''Members'' recs of
                            None \<Rightarrow> Some JNull
                          | Some syncRecord \<Rightarrow>
                              (if truthy (syncRecord ''last_sync_at'')
                               then syncRecord ''last_sync_at'' else Some JNull));
          filters = (if truthy lastSyncDate then [date_filter lastSyncDate] else [])
                    @ [json_object [(''tm_id_c'', Some (json_object [(''$not_null'', Some (JStr []))]))],
                       json_object [(''tm_id_c'', Some (json_object [(''$not_equals'', Some (JStr ''0''))]))],
                       json_object [(''acc_type_c'', Some (json_object [(''$equals'', Some (JStr ''Member''))]))]]
      in case getSugarcrmFields (env_loaded env) of
           Inl e \<Rightarrow> Some (members_catch env recs e None [])
         | Inr fieldNames \<Rightarrow>
             (case fetchAllRecords (env_post env filters) (Some (\<lambda>page resp. None)) of
                None \<Rightarrow> None
              | Some (Inl e) \<Rightarrow> Some (members_catch env recs e None [])
              | Some (Inr fetchResult) \<Rightarrow>
                  (if length (allRecords fetchResult) = 0 then
                     Some (members_commit env recs (totalFetched fetchResult) lastSyncDate [])
                   else
                     (let processedRecords =
                            processRecordsForPortalMembers (env_loaded env) (env_clock env) 0
                              (allRecords fetchResult)
                      in Some (members_catch env recs
                                 (ReferenceError ''accountsWithOfficers is not defined'')
                                 (Some (totalFetched fetchResult)) [])))))"

subsection \<open>sugarAuditorToPortalAuditor\<close>

text \<open>The \<open>catch\<close> block of this task only logs and rethrows.  The success update is not
  awaited: an error of it is not an error of the task.\<close>

definition sugarAuditorToPortalAuditor :: "run_env \<Rightarrow> sync_store \<Rightarrow> run_result option" where
  "sugarAuditorToPortalAuditor env recs =
     (case getSyncRecord ''Auditors'' recs of
        None \<Rightarrow>
          Some \<lparr>thrown = Some (Error
                   ''No sync record found for Auditors module. Please create one first.''),
                store_after = recs, fetched = None, pushed = []\<rparr>
      | Some syncRecord \<Rightarrow>
          (let lastSyncDate = syncRecord ''last_sync_at'' in
           case getSugarcrmFields (env_loaded env) of
             Inl e \<Rightarrow> Some \<lparr>thrown = Some e, store_after = recs, fetched = None, pushed = []\<rparr>
           | Inr auditorFields \<Rightarrow>
               (case fetchAllRecords (env_post env [date_filter lastSyncDate]) None of
                  None \<Rightarrow> None
                | Some (Inl e) \<Rightarrow>
                    Some \<lparr>thrown = Some e, store_after = recs, fetched = None, pushed = []\<rparr>
                | Some (Inr auditorRecords) \<Rightarrow>
                    (if length (allRecords auditorRecords) = 0 then
                       Some \<lparr>thrown = None, store_after = recs,
                             fetched = Some (totalFetched auditorRecords), pushed = []\<rparr>
                     else
                       (let processedRecords =
                              processRecordsForPortalAuditors (env_loaded env) (env_clock env) 0
                                (allRecords auditorRecords)
                        in case env_portal env processedRecords of
                             Inl err \<Rightarrow>
                               Some \<lparr>thrown = Some (Error (if err = []
                                                then ''Unknown error from Portal API'' else err)),
                                     store_after = recs,
                                     fetched = Some (totalFetched auditorRecords),
                                     pushed = [processedRecords]\<rparr>
                           | Inr portalResponse \<Rightarrow>
                               Some \<lparr>thrown = None,
                                     store_after = snd (updateSyncRecord (env_now env) ''Auditors''
                                        [''last_sync_at'' \<mapsto> Some (JStr (env_stamp env)),
                                         ''updated_at'' \<mapsto> Some (JStr (env_stamp env)),
                                         ''status'' \<mapsto> Some (JStr ''completed'')] recs),
                                     fetched = Some (totalFetched auditorRecords),
                                     pushed = [processedRecords]\<rparr>)))))"

section \<open>Outcome ledger (utils/integrationLogger.js, utils/database.js)\<close>













section \<open>Example inputs\<close>

text \<open>An example checkpoint, used to run the store on a concrete document.\<close>

definition members_checkpoint :: jsobj where
  "members_checkpoint =
     (\<lambda>k. None)(''module_name'' := Some (JStr ''Members''),
                 ''integration_name'' := Some (JStr ''sugarcrm_accounts''),
                 ''direction'' := Some (JStr ''inbound''),
                 ''status'' := Some (JStr ''success''),
                 ''last_sync_at'' := Some (JStr ''2025-09-01T00:00:00.000Z''),
                 ''updated_at'' := Some (JStr ''2025-09-01T00:00:00.000Z''))"

text \<open>Example mappings and source records, used to run the transformer.\<close>

definition members_mapping :: field_mapping where
  "members_mapping =
     \<lparr>field_mappings =
        [(''id'', \<lparr>portal_field = ''sugarcrm_id'', required = True, transform = ''direct''\<rparr>),
         (''name'', \<lparr>portal_field = ''member_name'', required = True, transform = ''direct''\<rparr>),
         (''tm_id_c'', \<lparr>portal_field = ''tm_id_c'', required = True, transform = ''direct''\<rparr>),
         (''status_c'', \<lparr>portal_field = ''status'', required = False, transform = ''direct''\<rparr>)],
      default_values = Some [(''status'', JStr ''Active'')],
      computed_fields = None,
      validation_rules =
        Some \<lparr>required_fields = Some [''tm_id_c''], email_validation = True,
              phone_validation = True\<rparr>\<rparr>"

definition incomplete_record :: jsobj where
  "incomplete_record =
     (\<lambda>k. None)(''id'' := Some (JStr ''test-456''), ''tm_id_c'' := Some (JStr ''TM002''))"


definition flag_mapping :: field_mapping where
  "flag_mapping =
     \<lparr>field_mappings =
        [(''active_c'', \<lparr>portal_field = ''is_active'', required = False, transform = ''direct''\<rparr>)],
      default_values = Some [(''is_active'', JBool True)],
      computed_fields = None,
      validation_rules = None\<rparr>"

definition inactive_record :: jsobj where
  "inactive_record =
     (\<lambda>k. None)(''id'' := Some (JStr ''test-789''), ''active_c'' := Some (JBool False))"

definition auditor_raw :: jsobj where
  "auditor_raw = (\<lambda>k. None)(''id'' := Some (JStr ''AUD002''),
       ''email_id_c'' := Some (JStr ''jane.doe@auditfirm.com''))"



text \<open>A source that answers with three records on two pages, at the offsets 0 and 2.\<close>

definition first_page :: response where
  "first_page =
     \<lparr>page_records = [(\<lambda>k. None)(''id'' := Some (JStr ''a1'')), (\<lambda>k. None)(''id'' := Some (JStr ''a2''))],
      has_more = True, next_offset = Some (JNum 2)\<rparr>"

definition last_page :: response where
  "last_page =
     \<lparr>page_records = [(\<lambda>k. None)(''id'' := Some (JStr ''a3''))],
      has_more = False, next_offset = Some (JNum (- 1))\<rparr>"

definition two_pages :: page_source where
  "two_pages n off =
     (if off = Some (JNum 0) then Inr first_page
      else if off = Some (JNum 2) then Inr last_page
      else Inl (Error ''SugarCRM API call failed: unexpected offset''))"

text \<open>Checkpoints, sources, portals and environments for runs of the tasks.\<close>

definition cases_checkpoint :: jsobj where
  "cases_checkpoint =
     (\<lambda>k. None)(''module_name'' := Some (JStr ''Cases''),
                 ''integration_name'' := Some (JStr ''sugarcrm_cases''),
                 ''direction'' := Some (JStr ''inbound''),
                 ''status'' := Some (JStr ''success''),
                 ''last_sync_at'' := Some (JStr ''2025-09-01T00:00:00.000Z''),
                 ''updated_at'' := Some (JStr ''2025-09-01T00:00:00.000Z''))"

definition auditors_checkpoint :: jsobj where
  "auditors_checkpoint =
     (\<lambda>k. None)(''module_name'' := Some (JStr ''Auditors''),
                 ''integration_name'' := Some (JStr ''sugarcrm_auditors''),
                 ''direction'' := Some (JStr ''inbound''),
                 ''status'' := Some (JStr ''completed''),
                 ''last_sync_at'' := Some (JStr ''2025-09-01T00:00:00.000Z''),
                 ''updated_at'' := Some (JStr ''2025-09-01T00:00:00.000Z''))"

definition id_name_mapping :: field_mapping where
  "id_name_mapping =
     \<lparr>field_mappings =
        [(''id'', \<lparr>portal_field = ''sugarcrm_id'', required = True, transform = ''direct''\<rparr>),
         (''name'', \<lparr>portal_field = ''name'', required = True, transform = ''direct''\<rparr>)],
      default_values = None,
      computed_fields = None,
      validation_rules = None\<rparr>"

definition named :: "string \<Rightarrow> string \<Rightarrow> jsobj" where
  "named i n = (\<lambda>k. None)(''id'' := Some (JStr i), ''name'' := Some (JStr n),
                          ''date_modified'' := Some (JStr ''2025-09-01T12:00:00.000Z''))"

text \<open>One page of five records, whatever the filters.\<close>

definition five_records :: page_source where
  "five_records n off =
     (if off = Some (JNum 0) then
        Inr \<lparr>page_records = [named ''c1'' ''Case 1'', named ''c2'' ''Case 2'',
                              named ''c3'' ''Case 3'', named ''c4'' ''Case 4'',
                              named ''c5'' ''Case 5''],
             has_more = False, next_offset = Some (JNum (- 1))\<rparr>
      else Inl (Error ''SugarCRM API call failed: unexpected offset''))"

definition no_records :: page_source where
  "no_records n off = Inr \<lparr>page_records = [], has_more = False, next_offset = Some (JNum (- 1))\<rparr>"

text \<open>Three accounts modified at noon of 1 September 2025: a request whose filters ask
  for the records modified since midnight of that day gets them, on two pages; any other
  request of these runs asks for records modified later and gets none.\<close>

definition accounts_since :: "json list \<Rightarrow> page_source" where
  "accounts_since filters =
     (if date_filter (Some (JStr ''2025-09-01T00:00:00.000Z'')) \<in> set filters
      then two_pages else no_records)"

definition cases_push_fails :: run_env where
  "cases_push_fails =
     \<lparr>env_loaded = Inr id_name_mapping,
      env_post = (\<lambda>filters. five_records),
      env_portal = (\<lambda>batch. Inl ''HTTP 503: Service Unavailable - ''),
      env_clock = (\<lambda>i. ''2025-09-02T08:00:03.000Z''),
      env_start = ''2025-09-02T08:00:00.000Z'',
      env_stamp = ''2025-09-02T08:00:05.000Z'',
      env_now = ''2025-09-02T08:00:05.001Z''\<rparr>"

definition members_first_run :: run_env where
  "members_first_run =
     \<lparr>env_loaded = Inr members_mapping,
      env_post = accounts_since,
      env_portal = (\<lambda>batch. Inr []),
      env_clock = (\<lambda>i. ''2025-09-02T08:00:03.000Z''),
      env_start = ''2025-09-02T08:00:00.000Z'',
      env_stamp = ''2025-09-02T08:00:05.000Z'',
      env_now = ''2025-09-02T08:00:05.001Z''\<rparr>"

definition members_second_run :: run_env where
  "members_second_run =
     \<lparr>env_loaded = Inr members_mapping,
      env_post = accounts_since,
      env_portal = (\<lambda>batch. Inr []),
      env_clock = (\<lambda>i. ''2025-09-02T09:00:03.000Z''),
      env_start = ''2025-09-02T09:00:00.000Z'',
      env_stamp = ''2025-09-02T09:00:05.000Z'',
      env_now = ''2025-09-02T09:00:05.001Z''\<rparr>"

definition auditors_nothing_new :: run_env where
  "auditors_nothing_new =
     \<lparr>env_loaded = Inr id_name_mapping,
      env_post = (\<lambda>filters. no_records),
      env_portal = (\<lambda>batch. Inr []),
      env_clock = (\<lambda>i. ''2025-09-02T09:00:03.000Z''),
      env_start = ''2025-09-02T09:00:00.000Z'',
      env_stamp = ''2025-09-02T09:00:05.000Z'',
      env_now = ''2025-09-02T09:00:05.001Z''\<rparr>"

definition morning_clock :: "nat \<Rightarrow> string" where
  "morning_clock i = ''2025-09-02T08:00:03.000Z''"

definition mapping_not_loaded :: "js_error + field_mapping" where
  "mapping_not_loaded = Inl (Error ''Failed to load field mappings: ENOENT'')"

section \<open>Properties of the checkpoint store\<close>

lemma findIndex_None: "findIndex P xs = None \<longleftrightarrow> (\<forall>x \<in> set xs. \<not> P x)"
  by (induction xs) auto

lemma findIndex_Some:
  "findIndex P xs = Some i \<Longrightarrow> i < length xs \<and> P (xs ! i) \<and> (\<forall>j < i. \<not> P (xs ! j))"
proof (induction xs arbitrary: i)
  case Nil
  then show ?case by simp
next
  case (Cons x xs)
  show ?case
  proof (cases "P x")
    case True
    with Cons.prems show ?thesis by simp
  next
    case False
    with Cons.prems obtain k where k: "findIndex P xs = Some k" "i = Suc k"
      by auto
    from Cons.IH [OF k(1)] False k(2) show ?thesis
      by (auto simp: nth_Cons split: nat.splits)
  qed
qed

lemma findIndex_least:
  assumes "i < length xs" "P (xs ! i)" "\<forall>j < i. \<not> P (xs ! j)"
  shows "findIndex P xs = Some i"
proof (cases "findIndex P xs")
  case None
  with assms(1,2) show ?thesis
    by (auto simp: findIndex_None)
next
  case (Some k)
  from findIndex_Some [OF Some] have k: "k < length xs" "P (xs ! k)" "\<forall>j < k. \<not> P (xs ! j)"
    by auto
  have "\<not> k < i" using assms(3) k(2) by blast
  moreover have "\<not> i < k" using k(3) assms(2) by blast
  ultimately have "k = i" by arith
  with Some show ?thesis by simp
qed


lemma updateSyncRecord_found:
  "findIndex (resolves identifier) recs = Some i \<Longrightarrow>
   updateSyncRecord now identifier updateData recs =
     (Inr ((spread (recs ! i) updateData)
             (''updated_at'' := Some (JStr now),
              ''last_sync_at'' :=
                 js_or (lit_prop updateData ''last_sync_at'') ((recs ! i) ''last_sync_at''))),
      recs[i := (spread (recs ! i) updateData)
             (''updated_at'' := Some (JStr now),
              ''last_sync_at'' :=
                 js_or (lit_prop updateData ''last_sync_at'') ((recs ! i) ''last_sync_at''))])"
  by (simp add: updateSyncRecord_def Let_def)



text \<open>
  Claim C10.  When the update supplies a falsy \<open>last_sync_at\<close> (\<open>null\<close>, \<open>undefined\<close>, the
  empty string, or no key at all), the stored \<open>last_sync_at\<close> of the checkpoint is what it
  was before.  Resetting one checkpoint through \<open>handleResetCommand\<close> therefore sets its
  status to \<open>pending\<close> and keeps its \<open>last_sync_at\<close>.
\<close>

theorem falsy_last_sync_at_keeps_prior:
  assumes "i < length recs" "resolves identifier (recs ! i)"
    and "\<forall>j < i. \<not> resolves identifier (recs ! j)"
  shows "(\<not> truthy (lit_prop updateData ''last_sync_at'') \<longrightarrow>
            (snd (updateSyncRecord now identifier updateData recs) ! i) ''last_sync_at''
              = (recs ! i) ''last_sync_at'')
       \<and> (identifier \<noteq> [] \<longrightarrow>
            fst (handleResetCommand now (Some identifier) recs) = Inr ()
          \<and> (snd (handleResetCommand now (Some identifier) recs) ! i) ''status''
              = Some (JStr ''pending'')
          \<and> (snd (handleResetCommand now (Some identifier) recs) ! i) ''last_sync_at''
              = (recs ! i) ''last_sync_at'')"
proof -
  from assms have found: "findIndex (resolves identifier) recs = Some i"
    by (simp add: findIndex_least)
  have upd: "\<not> truthy (lit_prop updateData ''last_sync_at'') \<longrightarrow>
            (snd (updateSyncRecord now identifier updateData recs) ! i) ''last_sync_at''
              = (recs ! i) ''last_sync_at''"
    using assms(1) by (simp add: updateSyncRecord_found [OF found] js_or_def)
  have reset: "identifier \<noteq> [] \<longrightarrow>
            fst (handleResetCommand now (Some identifier) recs) = Inr ()
          \<and> (snd (handleResetCommand now (Some identifier) recs) ! i) ''status''
              = Some (JStr ''pending'')
          \<and> (snd (handleResetCommand now (Some identifier) recs) ! i) ''last_sync_at''
              = (recs ! i) ''last_sync_at''"
    using assms(1)
    by (simp add: handleResetCommand_def updateSyncRecord_found [OF found] js_or_def
        lit_prop_def spread_def)
  from upd reset show ?thesis by blast
qed

theorem falsy_last_sync_at_keeps_prior_witness:
  "(snd (updateSyncRecord ''2025-09-02T08:00:00.000Z'' ''Members''
          [''last_sync_at'' \<mapsto> Some (JStr [])] [members_checkpoint]) ! 0) ''last_sync_at''
     = Some (JStr ''2025-09-01T00:00:00.000Z'')
   \<and> fst (handleResetCommand ''2025-09-02T08:00:00.000Z'' (Some ''Members'') [members_checkpoint])
       = Inr ()
   \<and> (snd (handleResetCommand ''2025-09-02T08:00:00.000Z'' (Some ''Members'')
          [members_checkpoint]) ! 0) ''status'' = Some (JStr ''pending'')
   \<and> (snd (handleResetCommand ''2025-09-02T08:00:00.000Z'' (Some ''Members'')
          [members_checkpoint]) ! 0) ''last_sync_at'' = Some (JStr ''2025-09-01T00:00:00.000Z'')"
proof -
  have 1: "0 < length [members_checkpoint]" by simp
  have 2: "resolves ''Members'' ([members_checkpoint] ! 0)"
    by (simp add: resolves_def members_checkpoint_def)
  have 3: "\<forall>j < (0::nat). \<not> resolves ''Members'' ([members_checkpoint] ! j)" by simp
  have 4: "\<not> truthy (lit_prop [''last_sync_at'' \<mapsto> Some (JStr [])] ''last_sync_at'')"
    by (simp add: lit_prop_def)
  have 5: "([members_checkpoint] ! 0) ''last_sync_at'' = Some (JStr ''2025-09-01T00:00:00.000Z'')"
    by (simp add: members_checkpoint_def)
  from falsy_last_sync_at_keeps_prior [OF 1 2 3, of "[''last_sync_at'' \<mapsto> Some (JStr [])]"
         "''2025-09-02T08:00:00.000Z''"] 4 5
  show ?thesis by simp
qed

section \<open>Properties of the field transformer\<close>










lemma defaults_keep_truthy:
  "truthy (r k) \<Longrightarrow> apply_default_values dv r k = r k"
proof (induction dv arbitrary: r)
  case Nil
  then show ?case by simp
next
  case (Cons a dv)
  obtain field v where a: "a = (field, v)" by (cases a)
  have keep: "truthy (r' k) \<Longrightarrow> apply_default_values dv r' k = r' k" for r'
    by (rule Cons.IH)
  show ?case
  proof (cases "\<not> truthy (r field) \<and> \<not> inherited r field")
    case True
    with Cons.prems have ne: "k \<noteq> field" by auto
    with Cons.prems have "truthy ((r(field := Some v)) k)" by simp
    with keep [of "r(field := Some v)"] ne True show ?thesis
      unfolding a by simp
  next
    case False
    with keep [of r] Cons.prems show ?thesis
      unfolding a by auto
  qed
qed


text \<open>A transformation that is reported invalid carries at least one error.\<close>

lemma check_required_sound:
  "valid \<or> errs \<noteq> [] \<Longrightarrow>
   fst (check_required_fields r fs (valid, errs)) \<or> snd (check_required_fields r fs (valid, errs)) \<noteq> []"
proof (induction fs arbitrary: valid errs)
  case Nil
  then show ?case by simp
next
  case (Cons a fs)
  have 1: "fst (check_required_fields r fs (False, errs @ [e]))
         \<or> snd (check_required_fields r fs (False, errs @ [e])) \<noteq> []" for e
    by (rule Cons.IH) simp
  have 2: "fst (check_required_fields r fs (valid, errs))
         \<or> snd (check_required_fields r fs (valid, errs)) \<noteq> []"
    by (rule Cons.IH) (rule Cons.prems)
  show ?case
    using 1 2 by simp
qed

lemma check_email_sound:
  "fst st \<or> snd st \<noteq> [] \<Longrightarrow>
   fst (check_email r rules st) \<or> snd (check_email r rules st) \<noteq> []"
  by (auto simp: check_email_def Let_def split: option.splits)

lemma check_phone_sound:
  "fst st \<or> snd st \<noteq> [] \<Longrightarrow> check_phone r rules st = Inr st' \<Longrightarrow> fst st' \<or> snd st' \<noteq> []"
  by (auto simp: check_phone_def split: if_splits option.splits json.splits)

lemma invalid_has_errors:
  assumes "transformSugarcrmToPortal loaded now src = Inr t" and "\<not> isValid t"
  shows "validationErrors t \<noteq> []"
proof -
  from assms(1) obtain m where m: "loaded = Inr m"
    by (cases loaded) (auto simp: transformSugarcrmToPortal_def)
  obtain r1 errs1 where s1: "apply_field_mappings src (field_mappings m) (\<lambda>k. None) [] = (r1, errs1)"
    by (cases "apply_field_mappings src (field_mappings m) (\<lambda>k. None) []")
  show ?thesis
  proof (cases "validation_rules m")
    case None
    with assms m s1 show ?thesis
      by (auto simp: transformSugarcrmToPortal_def Let_def)
  next
    case (Some rules)
    with assms(1) m s1 obtain r3 valid errs where
      v: "validateTransformedRecord r3 rules errs1 = Inr (valid, errs)"
      and t: "isValid t = valid" "validationErrors t = errs"
      by (auto simp: transformSugarcrmToPortal_def Let_def split: sum.splits)
    let ?st1 = "(case required_fields rules of
                   Some names \<Rightarrow> check_required_fields r3 names (True, errs1)
                 | None \<Rightarrow> (True, errs1))"
    have 1: "fst ?st1 \<or> snd ?st1 \<noteq> []"
      using check_required_sound [of True errs1 r3] by (cases "required_fields rules") auto
    from v have "check_phone r3 rules (check_email r3 rules ?st1) = Inr (valid, errs)"
      by (simp add: validateTransformedRecord_def Let_def)
    from check_phone_sound [OF check_email_sound [OF 1] this] have "valid \<or> errs \<noteq> []"
      by simp
    with assms(2) t show ?thesis by simp
  qed
qed


text \<open>
  Claim C1, evaluated where it fails.  The record of the repository's transformation test
  that lacks the required source field \<open>name\<close> is transformed with a mapping whose
  validation rules list only \<open>tm_id_c\<close>.  Step 1 appends the error for \<open>name\<close>, step 4
  appends nothing, and the result has \<open>isValid = true\<close> with a non-empty
  \<open>validationErrors\<close>.
\<close>

theorem transform_valid_with_step1_error:
  "\<not> isl (transformSugarcrmToPortal (Inr members_mapping) ''2025-09-02T08:00:00.000Z''
            incomplete_record)
   \<and> isValid (projr (transformSugarcrmToPortal (Inr members_mapping)
        ''2025-09-02T08:00:00.000Z'' incomplete_record))
   \<and> validationErrors (projr (transformSugarcrmToPortal (Inr members_mapping)
        ''2025-09-02T08:00:00.000Z'' incomplete_record)) = [''Missing required field: name'']"
  by code_simp




text \<open>
  Claim C7, evaluated where it fails.  The source record has \<open>active_c = false\<close>.  Step 1
  sets the destination field \<open>is_active\<close> to \<open>false\<close>: its test for a value admits
  everything but \<open>null\<close>, \<open>undefined\<close> and the empty string.  Step 2 tests
  \<open>!transformedRecord[field]\<close>, takes the field for unset and overwrites it with the
  default \<open>true\<close>.
\<close>

theorem default_overwrites_false_value:
  "fst (apply_field_mappings inactive_record (field_mappings flag_mapping) Map.empty [])
       ''is_active'' = Some (JBool False)
   \<and> \<not> isl (transformSugarcrmToPortal (Inr flag_mapping) ''2025-09-02T08:00:00.000Z''
              inactive_record)
   \<and> data (projr (transformSugarcrmToPortal (Inr flag_mapping) ''2025-09-02T08:00:00.000Z''
              inactive_record)) ''is_active'' = Some (JBool True)"
  by code_simp

section \<open>Properties of per-record processing\<close>

lemma members_length:
  "length (processRecordsForPortalMembers loaded clock i records) = length records"
  by (induction records arbitrary: i) auto

lemma cases_length:
  "length (processRecordsForPortalCases loaded clock i records) = length records"
  by (induction records arbitrary: i) auto

lemma auditors_length:
  "length (processRecordsForPortalAuditors loaded clock i records) = length records"
  by (induction records arbitrary: i) auto

lemma members_nth:
  "j < length records \<Longrightarrow>
   processRecordsForPortalMembers loaded clock i records ! j =
     (case transformSugarcrmToPortal loaded (clock (i + j)) (records ! j) of
        Inr t \<Rightarrow> members_processed (data t)
      | Inl e \<Rightarrow> members_fallback (records ! j))"
proof (induction records arbitrary: i j)
  case Nil
  then show ?case by simp
next
  case (Cons r records)
  show ?case
  proof (cases j)
    case 0
    then show ?thesis by (simp split: sum.splits)
  next
    case (Suc n)
    with Cons.prems have "n < length records" by simp
    from Cons.IH [OF this, of "Suc i"] Suc show ?thesis by (simp split: sum.splits)
  qed
qed

lemma auditors_nth:
  "j < length records \<Longrightarrow>
   processRecordsForPortalAuditors loaded clock i records ! j =
     (case transformSugarcrmToPortal loaded (clock (i + j)) (records ! j) of
        Inr t \<Rightarrow> auditors_processed (data t)
      | Inl e \<Rightarrow> auditors_fallback (records ! j))"
proof (induction records arbitrary: i j)
  case Nil
  then show ?case by simp
next
  case (Cons r records)
  show ?case
  proof (cases j)
    case 0
    then show ?thesis by (simp split: sum.splits)
  next
    case (Suc n)
    with Cons.prems have "n < length records" by simp
    from Cons.IH [OF this, of "Suc i"] Suc show ?thesis by (simp split: sum.splits)
  qed
qed

text \<open>
  Claim C8 as stated fails for the Auditors task: for a raw record without \<open>name\<close> the
  fallback record has the name \<open>Unknown\<close>, which is neither \<open>null\<close> nor taken from the raw
  input, and it copies \<open>email_id_c\<close> from the raw input.
\<close>

theorem auditors_fallback_counterexample:
  "(processRecordsForPortalAuditors mapping_not_loaded morning_clock 0 [auditor_raw] ! 0) ''name''
       = Some (JStr ''Unknown'')
   \<and> auditor_raw ''name'' = None
   \<and> (processRecordsForPortalAuditors mapping_not_loaded morning_clock 0 [auditor_raw] ! 0)
        ''email_id_c'' = Some (JStr ''jane.doe@auditfirm.com'')"
  by code_simp

text \<open>
  Claim C8, amended.  For every batch the output of the Members task and of the Auditors
  task has one entry per input record, whatever the transformations do.  Where the
  transformation of a record raises, the entry is a fallback built from the raw record: for
  Members it carries \<open>id\<close> and \<open>name\<close> (\<open>null\<close> when missing) and \<open>null\<close> in the three other
  fields; for Auditors it carries \<open>id\<close>, \<open>name\<close> (\<open>Unknown\<close> when missing) and the raw
  \<open>auditor_user_id_c\<close>, \<open>email_id_c\<close> and \<open>registration_no_c\<close> (\<open>null\<close> when missing).
\<close>

theorem fallback_keeps_batch_whole:
  "length (processRecordsForPortalMembers loaded clock i records) = length records
   \<and> length (processRecordsForPortalAuditors loaded clock i records) = length records
   \<and> (\<forall>j < length records. \<forall>e.
        transformSugarcrmToPortal loaded (clock (i + j)) (records ! j) = Inl e \<longrightarrow>
          (\<forall>k. (processRecordsForPortalMembers loaded clock i records ! j) k =
             (if k = ''sugarcrm_id'' then js_or ((records ! j) ''id'') (Some JNull)
              else if k = ''member_name'' then js_or ((records ! j) ''name'') (Some JNull)
              else if k \<in> {''tm_id_c'', ''status_c'', ''membership_category_c''} then Some JNull
              else None))
        \<and> (\<forall>k. (processRecordsForPortalAuditors loaded clock i records ! j) k =
             (if k = ''sugarcrm_id'' then (records ! j) ''id''
              else if k = ''name'' then js_or ((records ! j) ''name'') (Some (JStr ''Unknown''))
              else if k \<in> {''auditor_user_id_c'', ''email_id_c'', ''registration_no_c''}
                then js_or ((records ! j) k) (Some JNull)
              else None)))"
proof (intro conjI allI impI)
  show "length (processRecordsForPortalMembers loaded clock i records) = length records"
    by (rule members_length)
  show "length (processRecordsForPortalAuditors loaded clock i records) = length records"
    by (rule auditors_length)
next
  fix j e k
  assume j: "j < length records"
    and e: "transformSugarcrmToPortal loaded (clock (i + j)) (records ! j) = Inl e"
  show "(processRecordsForPortalMembers loaded clock i records ! j) k =
             (if k = ''sugarcrm_id'' then js_or ((records ! j) ''id'') (Some JNull)
              else if k = ''member_name'' then js_or ((records ! j) ''name'') (Some JNull)
              else if k \<in> {''tm_id_c'', ''status_c'', ''membership_category_c''} then Some JNull
              else None)"
    by (simp add: members_nth [OF j] e members_fallback_def)
  show "(processRecordsForPortalAuditors loaded clock i records ! j) k =
             (if k = ''sugarcrm_id'' then (records ! j) ''id''
              else if k = ''name'' then js_or ((records ! j) ''name'') (Some (JStr ''Unknown''))
              else if k \<in> {''auditor_user_id_c'', ''email_id_c'', ''registration_no_c''}
                then js_or ((records ! j) k) (Some JNull)
              else None)"
    by (simp add: auditors_nth [OF j] e auditors_fallback_def)
qed

theorem fallback_keeps_batch_whole_witness:
  "length (processRecordsForPortalMembers (Inl (Error ''Failed to load field mappings: ENOENT''))
             (\<lambda>i. ''2025-09-02T08:00:00.000Z'') 0 [auditor_raw, incomplete_record]) = 2
   \<and> (processRecordsForPortalMembers (Inl (Error ''Failed to load field mappings: ENOENT''))
             (\<lambda>i. ''2025-09-02T08:00:00.000Z'') 0 [auditor_raw, incomplete_record] ! 0)
          ''sugarcrm_id'' = Some (JStr ''AUD002'')
   \<and> (processRecordsForPortalMembers (Inl (Error ''Failed to load field mappings: ENOENT''))
             (\<lambda>i. ''2025-09-02T08:00:00.000Z'') 0 [auditor_raw, incomplete_record] ! 0)
          ''tm_id_c'' = Some JNull
   \<and> (processRecordsForPortalAuditors (Inl (Error ''Failed to load field mappings: ENOENT''))
             (\<lambda>i. ''2025-09-02T08:00:00.000Z'') 0 [auditor_raw, incomplete_record] ! 0)
          ''registration_no_c'' = Some JNull"
proof -
  let ?loaded = "Inl (Error ''Failed to load field mappings: ENOENT'') :: js_error + field_mapping"
  let ?clock = "\<lambda>i::nat. ''2025-09-02T08:00:00.000Z''"
  let ?records = "[auditor_raw, incomplete_record]"
  note c = fallback_keeps_batch_whole [of ?loaded ?clock 0 ?records]
  have j: "0 < length ?records" by simp
  have e: "transformSugarcrmToPortal ?loaded (?clock (0 + 0)) (?records ! 0)
             = Inl (Error ''Failed to load field mappings: ENOENT'')"
    by (simp add: transformSugarcrmToPortal_def)
  note f = c [THEN conjunct2, THEN conjunct2, rule_format, OF j e]
  have 1: "length (processRecordsForPortalMembers ?loaded ?clock 0 ?records) = 2"
    using c by simp
  have 2: "(processRecordsForPortalMembers ?loaded ?clock 0 ?records ! 0) ''sugarcrm_id''
             = Some (JStr ''AUD002'')"
    using f [THEN conjunct1, rule_format, of "''sugarcrm_id''"]
    by (simp add: auditor_raw_def js_or_def)
  have 3: "(processRecordsForPortalMembers ?loaded ?clock 0 ?records ! 0) ''tm_id_c'' = Some JNull"
    using f [THEN conjunct1, rule_format, of "''tm_id_c''"] by simp
  have 4: "(processRecordsForPortalAuditors ?loaded ?clock 0 ?records ! 0) ''registration_no_c''
             = Some JNull"
    using f [THEN conjunct2, rule_format, of "''registration_no_c''"]
    by (simp add: auditor_raw_def js_or_def)
  from 1 2 3 4 show ?thesis by (intro conjI)
qed

section \<open>Properties of the outcome ledger\<close>




section \<open>Properties of the paginated fetch\<close>

lemma step_continue:
  assumes "post k (offset (state_after onPage r k)) = Inr (r k)"
    and "\<forall>cb. onPage = Some cb \<longrightarrow> cb (page_records (r k)) (r k) = None"
    and "has_more (r k)"
    and "totalFetched (state_after onPage r (Suc k)) \<le> 10000"
  shows "fetch_pages post onPage (state_after onPage r k)
           = fetch_pages post onPage (state_after onPage r (Suc k))"
proof -
  have len: "length (requested (state_after onPage r k)) = k"
    by (simp add: state_after_def)
  show ?thesis
    apply (subst fetch_pages.simps)
    using assms
    by (cases onPage) (auto simp add: len Let_def state_after_def)
qed

lemma step_stop:
  assumes "post k (offset (state_after onPage r k)) = Inr (r k)"
    and "\<forall>cb. onPage = Some cb \<longrightarrow> cb (page_records (r k)) (r k) = None"
    and "\<not> has_more (r k) \<or> totalFetched (state_after onPage r (Suc k)) > 10000"
  shows "fetch_pages post onPage (state_after onPage r k)
           = Some (Inr ((state_after onPage r (Suc k))
                \<lparr>warned := (totalFetched (state_after onPage r (Suc k)) > 10000)\<rparr>))"
proof -
  have len: "length (requested (state_after onPage r k)) = k"
    by (simp add: state_after_def)
  show ?thesis
    apply (subst fetch_pages.simps)
    using assms
    by (cases onPage) (auto simp add: len Let_def state_after_def)
qed


lemma run_from:
  assumes "\<forall>k \<le> n. post k (offset (state_after onPage r k)) = Inr (r k)"
    and "\<forall>k \<le> n. \<forall>cb. onPage = Some cb \<longrightarrow> cb (page_records (r k)) (r k) = None"
    and "\<forall>k < n. has_more (r k) \<and> totalFetched (state_after onPage r (Suc k)) \<le> 10000"
    and "\<not> has_more (r n) \<or> totalFetched (state_after onPage r (Suc n)) > 10000"
    and "k \<le> n"
  shows "fetch_pages post onPage (state_after onPage r k)
           = Some (Inr ((state_after onPage r (Suc n))
                \<lparr>warned := (totalFetched (state_after onPage r (Suc n)) > 10000)\<rparr>))"
  using assms(5)
proof (induction "n - k" arbitrary: k)
  case 0
  then have "k = n" by simp
  with assms(1,2,4) show ?case
    by (simp add: step_stop)
next
  case (Suc d)
  then have lt: "k < n" and d: "d = n - Suc k" and le: "Suc k \<le> n" by simp_all
  from assms(1,2,3) lt
  have "fetch_pages post onPage (state_after onPage r k)
           = fetch_pages post onPage (state_after onPage r (Suc k))"
    by (simp add: step_continue)
  also have "\<dots> = Some (Inr ((state_after onPage r (Suc n))
                \<lparr>warned := (totalFetched (state_after onPage r (Suc n)) > 10000)\<rparr>))"
    by (rule Suc.hyps(1) [OF d le])
  finally show ?case .
qed

lemma fetchAllRecords_start: "fetchAllRecords post onPage = fetch_pages post onPage (state_after onPage r 0)"
  by (cases onPage) (simp_all add: fetchAllRecords_def state_after_def)

text \<open>
  Claim C6.  Let the first request, at offset 0, be answered by \<open>r 0\<close>, and the request
  after page \<open>k\<close>, at the offset \<open>next_offset (r k)\<close>, by \<open>r (k + 1)\<close>; let the callback,
  when given, not throw; let every page before page \<open>n\<close> report \<open>has_more\<close> with at most
  10,000 records fetched so far, and let page \<open>n\<close> be the first that reports no more data
  or brings the total above 10,000.  Then the fetch returns (it does not fail and does not
  run on): it has requested exactly the offsets \<open>0, next_offset (r 0), ...,
  next_offset (r (n - 1))\<close>, it has accumulated the records of the pages \<open>0 .. n\<close> in order,
  it has handed each of these pages to the callback, and it has printed the warning exactly
  when the total is above 10,000.
\<close>

theorem fetchAllRecords_follows_next_offset:
  assumes "post 0 (Some (JNum 0)) = Inr (r 0)"
    and "\<forall>k < n. post (Suc k) (next_offset (r k)) = Inr (r (Suc k))"
    and "\<forall>k \<le> n. \<forall>cb. onPage = Some cb \<longrightarrow> cb (page_records (r k)) (r k) = None"
    and "\<forall>k < n. has_more (r k)
           \<and> sum_list (map (\<lambda>j. length (page_records (r j))) [0..<Suc k]) \<le> 10000"
    and "\<not> has_more (r n)
           \<or> sum_list (map (\<lambda>j. length (page_records (r j))) [0..<Suc n]) > 10000"
  shows "fetchAllRecords post onPage =
     Some (Inr
       \<lparr>allRecords = concat (map (\<lambda>j. page_records (r j)) [0..<Suc n]),
        offset = next_offset (r n),
        totalFetched = sum_list (map (\<lambda>j. length (page_records (r j))) [0..<Suc n]),
        requested = Some (JNum 0) # map (\<lambda>j. next_offset (r j)) [0..<n],
        callbacks = (case onPage of
                       None \<Rightarrow> []
                     | Some cb \<Rightarrow> map (\<lambda>j. page_records (r j)) [0..<Suc n]),
        warned = (sum_list (map (\<lambda>j. length (page_records (r j))) [0..<Suc n]) > 10000)\<rparr>)"
proof -
  have 1: "\<forall>k \<le> n. post k (offset (state_after onPage r k)) = Inr (r k)"
  proof (intro allI impI)
    fix k assume "k \<le> n"
    with assms(1,2) show "post k (offset (state_after onPage r k)) = Inr (r k)"
      by (cases k) (simp_all add: state_after_def)
  qed
  have 3: "\<forall>k < n. has_more (r k) \<and> totalFetched (state_after onPage r (Suc k)) \<le> 10000"
    using assms(4) by (simp add: state_after_def)
  have 4: "\<not> has_more (r n) \<or> totalFetched (state_after onPage r (Suc n)) > 10000"
    using assms(5) by (simp add: state_after_def)
  have req: "map (\<lambda>j. case j of 0 \<Rightarrow> Some (JNum 0) | Suc i \<Rightarrow> next_offset (r i)) [0..<Suc n]
               = Some (JNum 0) # map (\<lambda>j. next_offset (r j)) [0..<n]"
    by (simp add: upt_conv_Cons map_Suc_upt [symmetric] del: upt_Suc)
  from run_from [of n post onPage r 0] 1 assms(3) 3 4
  have "fetchAllRecords post onPage
           = Some (Inr ((state_after onPage r (Suc n))
                \<lparr>warned := (totalFetched (state_after onPage r (Suc n)) > 10000)\<rparr>))"
    by (simp add: fetchAllRecords_start [of post onPage r])
  then show ?thesis
    unfolding state_after_def using req by simp
qed

theorem fetchAllRecords_follows_next_offset_witness:
  "map_option (map_sum id totalFetched) (fetchAllRecords two_pages (Some (\<lambda>records resp. None)))
     = Some (Inr 3)
   \<and> map_option (map_sum id requested) (fetchAllRecords two_pages (Some (\<lambda>records resp. None)))
     = Some (Inr [Some (JNum 0), Some (JNum 2)])
   \<and> map_option (map_sum id (\<lambda>st. length (allRecords st)))
        (fetchAllRecords two_pages (Some (\<lambda>records resp. None))) = Some (Inr 3)
   \<and> map_option (map_sum id (\<lambda>st. length (callbacks st)))
        (fetchAllRecords two_pages (Some (\<lambda>records resp. None))) = Some (Inr 2)
   \<and> map_option (map_sum id warned) (fetchAllRecords two_pages (Some (\<lambda>records resp. None)))
     = Some (Inr False)"
proof -
  let ?r = "\<lambda>k::nat. if k = 0 then first_page else last_page"
  let ?cb = "Some (\<lambda>records resp. None) :: page_callback option"
  have 1: "two_pages 0 (Some (JNum 0)) = Inr (?r 0)"
    by (simp add: two_pages_def)
  have 2: "\<forall>k < 1. two_pages (Suc k) (next_offset (?r k)) = Inr (?r (Suc k))"
    by (simp add: two_pages_def first_page_def)
  have 3: "\<forall>k \<le> 1. \<forall>cb. ?cb = Some cb \<longrightarrow> cb (page_records (?r k)) (?r k) = None"
    by auto
  have 4: "\<forall>k < 1. has_more (?r k)
           \<and> sum_list (map (\<lambda>j. length (page_records (?r j))) [0..<Suc k]) \<le> 10000"
    by (simp add: first_page_def)
  have 5: "\<not> has_more (?r 1)
           \<or> sum_list (map (\<lambda>j. length (page_records (?r j))) [0..<Suc 1]) > 10000"
    by (simp add: last_page_def)
  have up: "[0..<Suc 1] = [0, 1]" "[0..<1] = [0]"
    by (simp_all add: upt_conv_Cons)
  from fetchAllRecords_follows_next_offset [of two_pages ?r 1 ?cb, OF 1 2 3 4 5]
  show ?thesis
    by (simp add: up first_page_def last_page_def)
qed

section \<open>Properties of the sync tasks\<close>

text \<open>
  The Members task never calls the Destination, and a run of it that throws marks the
  checkpoint as failed and keeps its \<open>last_sync_at\<close>; a run that succeeds stamps
  \<open>last_sync_at\<close> with the time at which the task started.
\<close>

lemma members_catch_store:
  assumes "i < length recs" "resolves ''Members'' (recs ! i)"
    and "\<forall>j < i. \<not> resolves ''Members'' (recs ! j)"
  shows "thrown (members_catch env recs e n batches) = Some e"
    and "(store_after (members_catch env recs e n batches) ! i) ''status'' = Some (JStr ''failed'')"
    and "(store_after (members_catch env recs e n batches) ! i) ''last_sync_at''
           = (recs ! i) ''last_sync_at''"
proof -
  from assms have found: "findIndex (resolves ''Members'') recs = Some i"
    by (simp add: findIndex_least)
  show "thrown (members_catch env recs e n batches) = Some e"
    by (simp add: members_catch_def split: prod.splits)
  show "(store_after (members_catch env recs e n batches) ! i) ''status'' = Some (JStr ''failed'')"
    using assms(1)
    by (simp add: members_catch_def updateSyncRecord_found [OF found] spread_def)
  show "(store_after (members_catch env recs e n batches) ! i) ''last_sync_at''
           = (recs ! i) ''last_sync_at''"
    using assms(1)
    by (simp add: members_catch_def updateSyncRecord_found [OF found] js_or_def lit_prop_def)
qed

lemma members_commit_store:
  assumes "i < length recs" "resolves ''Members'' (recs ! i)"
    and "\<forall>j < i. \<not> resolves ''Members'' (recs ! j)"
  shows "thrown (members_commit env recs cnt lastSyncDate batches) = None"
    and "(store_after (members_commit env recs cnt lastSyncDate batches) ! i) ''status''
           = Some (JStr ''success'')"
    and "(store_after (members_commit env recs cnt lastSyncDate batches) ! i) ''last_sync_at''
           = (if env_start env = [] then (recs ! i) ''last_sync_at''
              else Some (JStr (env_start env)))"
    and "pushed (members_commit env recs cnt lastSyncDate batches) = batches"
proof -
  from assms have found: "findIndex (resolves ''Members'') recs = Some i"
    by (simp add: findIndex_least)
  show "thrown (members_commit env recs cnt lastSyncDate batches) = None"
    by (simp add: members_commit_def updateSyncRecord_found [OF found])
  show "(store_after (members_commit env recs cnt lastSyncDate batches) ! i) ''status''
           = Some (JStr ''success'')"
    using assms(1)
    by (simp add: members_commit_def updateSyncRecord_found [OF found] spread_def)
  show "(store_after (members_commit env recs cnt lastSyncDate batches) ! i) ''last_sync_at''
           = (if env_start env = [] then (recs ! i) ''last_sync_at''
              else Some (JStr (env_start env)))"
    using assms(1)
    by (simp add: members_commit_def updateSyncRecord_found [OF found] js_or_def lit_prop_def)
  show "pushed (members_commit env recs cnt lastSyncDate batches) = batches"
    by (simp add: members_commit_def updateSyncRecord_found [OF found])
qed

lemma members_failure_keeps_checkpoint:
  assumes "i < length recs" "resolves ''Members'' (recs ! i)"
    and "\<forall>j < i. \<not> resolves ''Members'' (recs ! j)"
    and "SugarCRMAccountToPortalMember env recs = Some res"
    and "thrown res = Some e"
  shows "(store_after res ! i) ''status'' = Some (JStr ''failed'')
       \<and> (store_after res ! i) ''last_sync_at'' = (recs ! i) ''last_sync_at''"
  using assms(4,5)
  by (auto simp: SugarCRMAccountToPortalMember_def Let_def
        members_catch_store [OF assms(1-3)] members_commit_store [OF assms(1-3)]
      split: sum.splits option.splits if_splits)

lemma members_pushed_catch: "pushed (members_catch env recs e n batches) = batches"
  by (simp add: members_catch_def split: prod.splits)

lemma members_pushed_commit: "pushed (members_commit env recs cnt lastSyncDate batches) = batches"
  by (simp add: members_commit_def members_pushed_catch split: prod.splits sum.splits)

lemma members_never_pushes:
  assumes "SugarCRMAccountToPortalMember env recs = Some res"
  shows "pushed res = []"
  using assms
  by (auto simp: SugarCRMAccountToPortalMember_def Let_def members_pushed_catch
        members_pushed_commit
      split: sum.splits option.splits if_splits)

lemma members_success_restamps:
  assumes "i < length recs" "resolves ''Members'' (recs ! i)"
    and "\<forall>j < i. \<not> resolves ''Members'' (recs ! j)"
    and "SugarCRMAccountToPortalMember env recs = Some res"
    and "thrown res = None" and "env_start env \<noteq> []"
  shows "(store_after res ! i) ''status'' = Some (JStr ''success'')
       \<and> (store_after res ! i) ''last_sync_at'' = Some (JStr (env_start env))"
  using assms(4,5,6)
  by (auto simp: SugarCRMAccountToPortalMember_def Let_def
        members_catch_store [OF assms(1-3)] members_commit_store [OF assms(1-3)]
      split: sum.splits option.splits if_splits)

text \<open>Every run of the Cases task that returns, thrown error or not, stamps
  \<open>last_sync_at\<close> with the time read just before the update.\<close>

lemma cases_catch_store:
  assumes "i < length recs" "resolves ''Cases'' (recs ! i)"
    and "\<forall>j < i. \<not> resolves ''Cases'' (recs ! j)"
  shows "thrown (cases_catch env recs e n batches) = Some e"
    and "(store_after (cases_catch env recs e n batches) ! i) ''status'' = Some (JStr ''failed'')"
    and "(store_after (cases_catch env recs e n batches) ! i) ''last_sync_at''
           = (if env_stamp env = [] then (recs ! i) ''last_sync_at''
              else Some (JStr (env_stamp env)))"
proof -
  from assms have found: "findIndex (resolves ''Cases'') recs = Some i"
    by (simp add: findIndex_least)
  show "thrown (cases_catch env recs e n batches) = Some e"
    by (simp add: cases_catch_def updateSyncRecord_found [OF found])
  show "(store_after (cases_catch env recs e n batches) ! i) ''status'' = Some (JStr ''failed'')"
    using assms(1)
    by (simp add: cases_catch_def updateSyncRecord_found [OF found] spread_def)
  show "(store_after (cases_catch env recs e n batches) ! i) ''last_sync_at''
           = (if env_stamp env = [] then (recs ! i) ''last_sync_at''
              else Some (JStr (env_stamp env)))"
    using assms(1)
    by (simp add: cases_catch_def updateSyncRecord_found [OF found] js_or_def lit_prop_def)
qed

lemma cases_commit_store:
  assumes "i < length recs" "resolves ''Cases'' (recs ! i)"
    and "\<forall>j < i. \<not> resolves ''Cases'' (recs ! j)"
  shows "thrown (cases_commit env recs cnt lastSyncDate batches) = None"
    and "(store_after (cases_commit env recs cnt lastSyncDate batches) ! i) ''status''
           = Some (JStr ''success'')"
    and "(store_after (cases_commit env recs cnt lastSyncDate batches) ! i) ''last_sync_at''
           = (if env_stamp env = [] then (recs ! i) ''last_sync_at''
              else Some (JStr (env_stamp env)))"
proof -
  from assms have found: "findIndex (resolves ''Cases'') recs = Some i"
    by (simp add: findIndex_least)
  show "thrown (cases_commit env recs cnt lastSyncDate batches) = None"
    by (simp add: cases_commit_def updateSyncRecord_found [OF found])
  show "(store_after (cases_commit env recs cnt lastSyncDate batches) ! i) ''status''
           = Some (JStr ''success'')"
    using assms(1)
    by (simp add: cases_commit_def updateSyncRecord_found [OF found] spread_def)
  show "(store_after (cases_commit env recs cnt lastSyncDate batches) ! i) ''last_sync_at''
           = (if env_stamp env = [] then (recs ! i) ''last_sync_at''
              else Some (JStr (env_stamp env)))"
    using assms(1)
    by (simp add: cases_commit_def updateSyncRecord_found [OF found] js_or_def lit_prop_def)
qed

lemma cases_run_stamps_last_sync_at:
  assumes "i < length recs" "resolves ''Cases'' (recs ! i)"
    and "\<forall>j < i. \<not> resolves ''Cases'' (recs ! j)"
    and "SugarImportCasesToPortalCases env recs = Some res"
    and "env_stamp env \<noteq> []"
  shows "(store_after res ! i) ''last_sync_at'' = Some (JStr (env_stamp env))
       \<and> (store_after res ! i) ''status''
            = Some (JStr (if thrown res = None then ''success'' else ''failed''))"
  using assms(4,5)
  by (auto simp: SugarImportCasesToPortalCases_def Let_def
        cases_catch_store [OF assms(1-3)] cases_commit_store [OF assms(1-3)]
      split: sum.splits option.splits if_splits)

text \<open>A run of the Auditors task that throws leaves the checkpoint store untouched.\<close>

lemma auditors_failure_leaves_store:
  assumes "sugarAuditorToPortalAuditor env recs = Some res" and "thrown res = Some e"
  shows "store_after res = recs"
  using assms
  by (auto simp: sugarAuditorToPortalAuditor_def Let_def
      split: sum.splits option.splits if_splits)

text \<open>
  Claim C2, evaluated where it fails.  The Cases task fetches five records from a checkpoint
  with \<open>last_sync_at\<close> of 1 September, and the push to the Destination fails.  The task
  rethrows the error and marks the checkpoint as failed, and it also overwrites
  \<open>last_sync_at\<close> with the time of the failure.
\<close>

theorem cases_failure_stamps_last_sync_at:
  "map_option (\<lambda>res. (thrown res, fetched res, length (pushed res),
            (store_after res ! 0) ''status'', (store_after res ! 0) ''last_sync_at''))
     (SugarImportCasesToPortalCases cases_push_fails [cases_checkpoint])
   = Some (Some (Error ''Portal API call failed: HTTP 503: Service Unavailable - ''), Some 5, 1,
        Some (JStr ''failed''), Some (JStr ''2025-09-02T08:00:05.000Z''))
   \<and> cases_checkpoint ''last_sync_at'' = Some (JStr ''2025-09-01T00:00:00.000Z'')"
  by code_simp

text \<open>
  Claim C3, evaluated where it fails.  The Members task runs twice against a Source that
  holds three accounts modified since the checkpoint.  The first run fetches the three
  records and throws the \<open>ReferenceError\<close> before it calls the Destination; the checkpoint
  is marked failed and keeps its \<open>last_sync_at\<close>.  The second run, an hour later with the
  Source unchanged, fetches the same three records, throws again and leaves
  \<open>last_sync_at\<close> where it was.
\<close>

theorem members_second_run_fetches_again:
  "map_option (\<lambda>run1.
       (thrown run1, fetched run1, length (pushed run1),
        (store_after run1 ! 0) ''status'', (store_after run1 ! 0) ''last_sync_at'',
        map_option (\<lambda>run2.
            (thrown run2, fetched run2, length (pushed run2),
             (store_after run2 ! 0) ''status'', (store_after run2 ! 0) ''last_sync_at''))
          (SugarCRMAccountToPortalMember members_second_run (store_after run1))))
     (SugarCRMAccountToPortalMember members_first_run [members_checkpoint])
   = Some (Some (ReferenceError ''accountsWithOfficers is not defined''), Some 3, 0,
        Some (JStr ''failed''), Some (JStr ''2025-09-01T00:00:00.000Z''),
        Some (Some (ReferenceError ''accountsWithOfficers is not defined''), Some 3, 0,
              Some (JStr ''failed''), Some (JStr ''2025-09-01T00:00:00.000Z'')))"
  by code_simp

text \<open>The Auditors task with nothing to fetch returns before the checkpoint update: the
  checkpoint keeps its status and its \<open>last_sync_at\<close>.\<close>

lemma auditors_nothing_new_keeps_stamp:
  "map_option (\<lambda>res. (thrown res, fetched res, length (pushed res),
            (store_after res ! 0) ''status'', (store_after res ! 0) ''last_sync_at''))
     (sugarAuditorToPortalAuditor auditors_nothing_new [auditors_checkpoint])
   = Some (None, Some 0, 0, Some (JStr ''completed''), Some (JStr ''2025-09-01T00:00:00.000Z''))"
  by code_simp

end
